theory Spec2Isabelle
  imports Main
begin

section \<open>The reveal bot: data model\<close>

text \<open>
  The program keeps one process-wide table,
  \<^verbatim>\<open>const matchData = new Map(); // threadId -> { playerA: string|null, playerB: string|null, ids: [idA, idB] }\<close>
  (index.js, line 15). A slot holds \<^verbatim>\<open>null\<close> (here \<open>None\<close>) or a string; \<open>ids\<close> is a
  JavaScript array. The objects stored in the table are created by one object literal
  per key (line 107) and are never shared between keys, so the in-place updates of the
  handlers are modelled as updates of the value stored under the key.
\<close>

type_synonym user_id = string
type_synonym chan_id = string

record match_data =
  playerA :: "string option"
  playerB :: "string option"
  ids :: "user_id list"

text \<open>
  The state of the process: the table, and the thread ids for which a
  \<^verbatim>\<open>setTimeout\<close> callback (lines 113-118) is pending.
\<close>

record bot_state =
  matchData :: "chan_id \<rightharpoonup> match_data"
  timers :: "chan_id list"

definition init :: bot_state where
  "init = \<lparr>matchData = Map.empty, timers = []\<rparr>"

text \<open>A platform user, as far as the handlers read it: \<^verbatim>\<open>id\<close>, \<^verbatim>\<open>username\<close>, \<^verbatim>\<open>bot\<close>.\<close>

record user =
  uid :: user_id
  username :: string
  bot :: bool

datatype channel_type = GuildText | GuildAnnouncement | OtherChannelType

subsection \<open>Calls into the platform\<close>

text \<open>
  Every call the handlers make into the chat platform. \<open>Reply\<close> is
  \<^verbatim>\<open>interaction.reply({content, ephemeral: true})\<close>, shown to the requester only;
  \<open>ChannelSend\<close> and \<open>ChannelSendEmbed\<close> post into a channel, visible to its members.
  \<open>ChannelSendEmbed c a b\<close> stands for building the embed with the fields
  \<^verbatim>\<open>Player A\<close> = a, \<^verbatim>\<open>Player B\<close> = b (lines 149-155) and sending it (line 157).
\<close>

datatype call =
    Reply string
  | DeferReply
  | EditReply string
  | ThreadsCreate string
  | MembersAdd chan_id user_id
  | ChannelSend chan_id string
  | ChannelSendEmbed chan_id string string
  | MsgDelete chan_id user_id
  | ThreadDelete chan_id

text \<open>
  The platform decides which calls throw, and which thread id
  \<^verbatim>\<open>parentChannel.threads.create\<close> returns (\<open>None\<close>: it throws).
\<close>

record platform =
  succeeds :: "call \<Rightarrow> bool"
  threads_create :: "string \<Rightarrow> chan_id option"

text \<open>
  What a handler run leaves behind for an observer: each call attempted, in order, with
  whether it went through; each \<^verbatim>\<open>console.error\<close> line; and \<open>Unhandled\<close> when the
  promise of the handler is rejected (an exception no \<^verbatim>\<open>catch\<close> of the handler sees).
\<close>

datatype effect = Did call | Failed call | ConsoleError string | Unhandled

text \<open>
  The branch of the source by which a handler run ended. The handlers return nothing;
  the label is read off the branch: \<open>NoSuchMatch\<close> is \<^verbatim>\<open>if (!data)\<close>,
  \<open>NotAParticipant\<close> is \<^verbatim>\<open>!data.ids.includes(...)\<close>, \<open>Incomplete\<close> is
  \<^verbatim>\<open>!data.playerA || !data.playerB\<close>, \<open>Revealed a b\<close> is the end of the reveal branch
  (line 159 reached), \<open>HandlerError\<close> is the \<^verbatim>\<open>catch\<close> of lines 161-171,
  \<open>Ignored\<close> is a return of the handler before any of these.
\<close>

datatype outcome =
    Created chan_id
  | NotInGuild
  | BadParent
  | ThreadCreateFailed
  | NoSuchMatch
  | NotAParticipant
  | Recorded
  | Incomplete
  | Revealed string string
  | Expired
  | Ignored
  | HandlerError

record result =
  st :: bot_state
  trace :: "effect list"
  outcome :: outcome

subsection \<open>JavaScript primitives used by the handlers\<close>

text \<open>\<^verbatim>\<open>!x\<close> for \<open>x\<close> of type \<^verbatim>\<open>string|null\<close>: \<^verbatim>\<open>null\<close> and the empty string are falsy.\<close>

fun truthy :: "string option \<Rightarrow> bool" where
  "truthy None = False"
| "truthy (Some v) = (v \<noteq> [])"

text \<open>\<^verbatim>\<open>xs.includes(x)\<close> on an array of strings.\<close>

definition array_includes :: "user_id list \<Rightarrow> user_id \<Rightarrow> bool" where
  "array_includes xs x = (x \<in> set xs)"

text \<open>\<^verbatim>\<open>xs[i]\<close>: \<^verbatim>\<open>undefined\<close> (here \<open>None\<close>) out of range.\<close>

definition at :: "'a list \<Rightarrow> nat \<Rightarrow> 'a option" where
  "at xs i = (if i < length xs then Some (xs ! i) else None)"

text \<open>An awaited call inside a \<^verbatim>\<open>try\<close> whose \<^verbatim>\<open>catch\<close> is empty (lines 104, 105, 115).\<close>

definition attempt :: "platform \<Rightarrow> call \<Rightarrow> effect list" where
  "attempt p c = (if succeeds p c then [Did c] else [Failed c])"

text \<open>
  A call whose failure nothing catches: \<^verbatim>\<open>return interaction.reply(...)\<close> is not
  awaited inside the \<^verbatim>\<open>try\<close>, so its rejection leaves the handler; the same holds for
  the \<^verbatim>\<open>await\<close> inside the \<^verbatim>\<open>catch\<close> of the message handler (line 195).
\<close>

definition uncaught :: "platform \<Rightarrow> call \<Rightarrow> effect list" where
  "uncaught p c = (if succeeds p c then [Did c] else [Failed c, Unhandled])"

text \<open>
  The \<^verbatim>\<open>catch (err)\<close> of the interaction handler (lines 161-171), entered when the
  awaited call \<open>c\<close> threw; \<open>deferred\<close> is \<^verbatim>\<open>interaction.deferred\<close>. A chat input command
  is repliable. The inner \<^verbatim>\<open>try\<close> swallows a failure of the notice.
\<close>

definition on_error :: "platform \<Rightarrow> bool \<Rightarrow> call \<Rightarrow> effect list" where
  "on_error p deferred c =
     [Failed c, ConsoleError ''interaction error:''] @
     (if deferred then attempt p (EditReply ''Unexpected error handling this command.'')
      else attempt p (Reply ''Unexpected error handling this command.''))"

section \<open>The handlers\<close>

subsection \<open>/startmatch (lines 74-119)\<close>

definition thread_name :: "user \<Rightarrow> user \<Rightarrow> string" where
  "thread_name starter opponent = ''match-'' @ username starter @ ''-vs-'' @ username opponent"

definition created_text :: "chan_id \<Rightarrow> string" where
  "created_text t = ''Match thread created: <#'' @ t @ ''> (will delete in ~10 minutes)''"

definition welcome_text :: "chan_id \<Rightarrow> user \<Rightarrow> user \<Rightarrow> string" where
  "welcome_text t starter opponent =
     ''Welcome <@'' @ uid starter @ ''> and <@'' @ uid opponent @
     ''>! You can type your choice here (I will hide it), or use /submit.''"

text \<open>The object literal of line 107.\<close>

definition fresh_match :: "user \<Rightarrow> user \<Rightarrow> match_data" where
  "fresh_match starter opponent =
     \<lparr>playerA = None, playerB = None, ids = [uid starter, uid opponent]\<rparr>"

definition startmatch ::
  "platform \<Rightarrow> bool \<Rightarrow> channel_type \<Rightarrow> user \<Rightarrow> user \<Rightarrow> bot_state \<Rightarrow> result" where
  "startmatch p in_guild parent_type starter opponent s =
    (if \<not> in_guild then
       \<lparr>st = s, trace = uncaught p (Reply ''Use this in a server.''), outcome = NotInGuild\<rparr>
     else if \<not> succeeds p DeferReply then
       \<lparr>st = s, trace = on_error p False DeferReply, outcome = HandlerError\<rparr>
     else if parent_type \<noteq> GuildText \<and> parent_type \<noteq> GuildAnnouncement then
       \<lparr>st = s,
        trace = Did DeferReply # uncaught p (EditReply
          ''Please run /startmatch in a regular text channel (not in a thread/forum).''),
        outcome = BadParent\<rparr>
     else
       (case threads_create p (thread_name starter opponent) of
          None \<Rightarrow>
            \<lparr>st = s,
             trace = [Did DeferReply, Failed (ThreadsCreate (thread_name starter opponent)),
                      ConsoleError ''Thread create failed:''] @
                     uncaught p (EditReply
          ''I could not create a private thread. I may be missing the **Create Private Threads** permission.''),
             outcome = ThreadCreateFailed\<rparr>
        | Some t \<Rightarrow>
            (let pre = [Did DeferReply, Did (ThreadsCreate (thread_name starter opponent))] @
                       attempt p (MembersAdd t (uid starter)) @
                       attempt p (MembersAdd t (uid opponent));
                 s1 = s\<lparr>matchData := (matchData s)(t \<mapsto> fresh_match starter opponent)\<rparr>
             in if \<not> succeeds p (EditReply (created_text t)) then
                  \<lparr>st = s1, trace = pre @ on_error p True (EditReply (created_text t)),
                   outcome = HandlerError\<rparr>
                else if \<not> succeeds p (ChannelSend t (welcome_text t starter opponent)) then
                  \<lparr>st = s1,
                   trace = pre @ [Did (EditReply (created_text t))] @
                           on_error p True (ChannelSend t (welcome_text t starter opponent)),
                   outcome = HandlerError\<rparr>
                else
                  \<lparr>st = s1\<lparr>timers := timers s1 @ [t]\<rparr>,
                   trace = pre @ [Did (EditReply (created_text t)),
                                  Did (ChannelSend t (welcome_text t starter opponent))],
                   outcome = Created t\<rparr>)))"

subsection \<open>The expiry callback (lines 113-118)\<close>

text \<open>
  \<^verbatim>\<open>try { await thread.delete(); } catch {}  matchData.delete(thread.id);\<close>
\<close>

definition expiry :: "platform \<Rightarrow> chan_id \<Rightarrow> bot_state \<Rightarrow> result" where
  "expiry p t s =
     \<lparr>st = s\<lparr>matchData := (matchData s)(t := None)\<rparr>,
      trace = attempt p (ThreadDelete t),
      outcome = Expired\<rparr>"

subsection \<open>/submit (lines 121-137)\<close>

definition submit :: "platform \<Rightarrow> chan_id \<Rightarrow> user_id \<Rightarrow> string \<Rightarrow> bot_state \<Rightarrow> result" where
  "submit p threadId u choice s =
    (case matchData s threadId of
       None \<Rightarrow>
         \<lparr>st = s,
          trace = uncaught p (Reply
            ''This thread is not a valid match. Use /submit inside the match thread.''),
          outcome = NoSuchMatch\<rparr>
     | Some d \<Rightarrow>
         if \<not> array_includes (ids d) u then
           \<lparr>st = s,
            trace = uncaught p (Reply ''Only the two match players can submit here.''),
            outcome = NotAParticipant\<rparr>
         else
           (let d' = (if Some u = at (ids d) 0 then d\<lparr>playerA := Some choice\<rparr>
                      else d\<lparr>playerB := Some choice\<rparr>)
            in \<lparr>st = s\<lparr>matchData := (matchData s)(threadId \<mapsto> d')\<rparr>,
                trace = uncaught p (Reply ''Your choice has been recorded (hidden).''),
                outcome = Recorded\<rparr>))"

subsection \<open>/reveal (lines 139-160)\<close>

definition reveal :: "platform \<Rightarrow> chan_id \<Rightarrow> bot_state \<Rightarrow> result" where
  "reveal p threadId s =
    (case matchData s threadId of
       None \<Rightarrow>
         \<lparr>st = s,
          trace = uncaught p (Reply
   ''This thread is not a valid match. Make sure you run /reveal inside the match thread.''),
          outcome = NoSuchMatch\<rparr>
     | Some d \<Rightarrow>
         if \<not> truthy (playerA d) \<or> \<not> truthy (playerB d) then
           \<lparr>st = s,
            trace = uncaught p (Reply ''Not all players have submitted their choice yet.''),
            outcome = Incomplete\<rparr>
         else
           (let a = the (playerA d); b = the (playerB d)
            in if \<not> succeeds p (ChannelSendEmbed threadId a b) then
                 \<lparr>st = s, trace = on_error p False (ChannelSendEmbed threadId a b),
                  outcome = HandlerError\<rparr>
               else if \<not> succeeds p (Reply ''Choices revealed!'') then
                 \<lparr>st = s,
                  trace = Did (ChannelSendEmbed threadId a b) #
                          on_error p False (Reply ''Choices revealed!''),
                  outcome = HandlerError\<rparr>
               else
                 \<lparr>st = s\<lparr>matchData := (matchData s)(threadId := None)\<rparr>,
                  trace = [Did (ChannelSendEmbed threadId a b), Did (Reply ''Choices revealed!'')],
                  outcome = Revealed a b\<rparr>))"

subsection \<open>The interaction handler (lines 70-173)\<close>

datatype command = StartMatch user | Submit string | Reveal | OtherCommand

record interaction =
  isChatInputCommand :: bool
  command :: command
  requester :: user
  channelId :: chan_id
  inGuild :: bool
  channelType :: channel_type

text \<open>
  The three \<^verbatim>\<open>if (interaction.commandName === ...)\<close> tests are sequential in the source;
  the names exclude each other, so at most one branch runs.
\<close>

definition interactionCreate :: "platform \<Rightarrow> interaction \<Rightarrow> bot_state \<Rightarrow> result" where
  "interactionCreate p i s =
    (if \<not> isChatInputCommand i then \<lparr>st = s, trace = [], outcome = Ignored\<rparr>
     else case command i of
        StartMatch opponent \<Rightarrow> startmatch p (inGuild i) (channelType i) (requester i) opponent s
      | Submit choice \<Rightarrow> submit p (channelId i) (uid (requester i)) choice s
      | Reveal \<Rightarrow> reveal p (channelId i) s
      | OtherCommand \<Rightarrow> \<lparr>st = s, trace = [], outcome = Ignored\<rparr>)"

subsection \<open>The message handler (lines 175-198)\<close>

definition hidden_text :: "string \<Rightarrow> string" where
  "hidden_text name = name @ '' has submitted their choice (hidden).''"

definition not_deleted_text :: "string \<Rightarrow> string" where
  "not_deleted_text name = name @
     '' has submitted their choice, but I could not delete their message. Please make sure I have the **Manage Messages** permission.''"

text \<open>Lines 190-196: delete the message and announce; on a failure of either, log and say so.\<close>

definition scrub :: "platform \<Rightarrow> chan_id \<Rightarrow> user \<Rightarrow> effect list" where
  "scrub p c author =
    (if \<not> succeeds p (MsgDelete c (uid author)) then
       [Failed (MsgDelete c (uid author)), ConsoleError ''Failed to delete message:''] @
       uncaught p (ChannelSend c (not_deleted_text (username author)))
     else if \<not> succeeds p (ChannelSend c (hidden_text (username author))) then
       [Did (MsgDelete c (uid author)), Failed (ChannelSend c (hidden_text (username author))),
        ConsoleError ''Failed to delete message:''] @
       uncaught p (ChannelSend c (not_deleted_text (username author)))
     else
       [Did (MsgDelete c (uid author)), Did (ChannelSend c (hidden_text (username author)))])"

definition messageCreate :: "platform \<Rightarrow> chan_id \<Rightarrow> user \<Rightarrow> string \<Rightarrow> bot_state \<Rightarrow> result" where
  "messageCreate p threadId author content s =
    (if bot author then \<lparr>st = s, trace = [], outcome = Ignored\<rparr>
     else case matchData s threadId of
       None \<Rightarrow> \<lparr>st = s, trace = [], outcome = NoSuchMatch\<rparr>
     | Some d \<Rightarrow>
         if array_includes (ids d) (uid author) then
           (let d' = (if Some (uid author) = at (ids d) 0 then d\<lparr>playerA := Some content\<rparr>
                      else if Some (uid author) = at (ids d) 1 then d\<lparr>playerB := Some content\<rparr>
                      else d)
            in \<lparr>st = s\<lparr>matchData := (matchData s)(threadId \<mapsto> d')\<rparr>,
                trace = scrub p threadId author,
                outcome = Recorded\<rparr>)
         else \<lparr>st = s, trace = [], outcome = NotAParticipant\<rparr>)"

subsection \<open>Events and runs\<close>

datatype event =
    Interaction interaction
  | Message chan_id user string
  | Timeout chan_id

text \<open>
  One event of the event loop, with the platform's behaviour during it. A timeout fires
  only for a thread id whose timer is pending, and a timer fires once. A handler run is
  one step: what other handlers do while one is suspended at an \<^verbatim>\<open>await\<close> is not
  part of this model.
\<close>

definition step :: "platform \<times> event \<Rightarrow> bot_state \<Rightarrow> result" where
  "step pe s =
    (case snd pe of
       Interaction i \<Rightarrow> interactionCreate (fst pe) i s
     | Message c author content \<Rightarrow> messageCreate (fst pe) c author content s
     | Timeout t \<Rightarrow>
         if t \<in> set (timers s) then expiry (fst pe) t (s\<lparr>timers := remove1 t (timers s)\<rparr>)
         else \<lparr>st = s, trace = [], outcome = Ignored\<rparr>)"

fun run :: "(platform \<times> event) list \<Rightarrow> bot_state \<Rightarrow> bot_state" where
  "run [] s = s"
| "run (pe # pes) s = run pes (st (step pe s))"

text \<open>The thread id under which an event stores a fresh record, if it stores one.\<close>

definition creates :: "platform \<times> event \<Rightarrow> chan_id option" where
  "creates pe =
    (case snd pe of
       Interaction i \<Rightarrow>
         (if isChatInputCommand i then
            (case command i of
               StartMatch opponent \<Rightarrow>
                 (if inGuild i \<and> succeeds (fst pe) DeferReply \<and>
                     (channelType i = GuildText \<or> channelType i = GuildAnnouncement)
                  then threads_create (fst pe) (thread_name (requester i) opponent)
                  else None)
             | _ \<Rightarrow> None)
          else None)
     | _ \<Rightarrow> None)"

text \<open>Every record of the table has an \<open>ids\<close> array of two elements.\<close>

definition two_ids :: "bot_state \<Rightarrow> bool" where
  "two_ids s = (\<forall>c d. matchData s c = Some d \<longrightarrow> length (ids d) = 2)"

subsection \<open>Concrete platforms, users and states\<close>

definition everything_works :: "chan_id \<Rightarrow> platform" where
  "everything_works t = \<lparr>succeeds = (\<lambda>c. True), threads_create = (\<lambda>n. Some t)\<rparr>"

definition nothing_works :: platform where
  "nothing_works = \<lparr>succeeds = (\<lambda>c. False), threads_create = (\<lambda>n. None)\<rparr>"

text \<open>
  The interaction can no longer be answered (its token has run out while the handler was
  busy): every \<^verbatim>\<open>interaction.reply\<close> throws, every other call goes through.
\<close>

definition ack_too_late :: platform where
  "ack_too_late =
     \<lparr>succeeds = (\<lambda>c. case c of Reply m \<Rightarrow> False | _ \<Rightarrow> True),
      threads_create = (\<lambda>n. None)\<rparr>"

definition alice :: user where
  "alice = \<lparr>uid = ''1001'', username = ''alice'', bot = False\<rparr>"

definition bob :: user where
  "bob = \<lparr>uid = ''1002'', username = ''bob'', bot = False\<rparr>"

definition carol :: user where
  "carol = \<lparr>uid = ''1003'', username = ''carol'', bot = False\<rparr>"

definition robo :: user where
  "robo = \<lparr>uid = ''2002'', username = ''robo'', bot = True\<rparr>"

definition half_match :: match_data where
  "half_match = \<lparr>playerA = Some ''X'', playerB = None, ids = [''1001'', ''1002'']\<rparr>"

definition ready_match :: match_data where
  "ready_match = \<lparr>playerA = Some ''X'', playerB = Some ''Y'', ids = [''1001'', ''1002'']\<rparr>"

definition half_state :: bot_state where
  "half_state = \<lparr>matchData = [''chan1'' \<mapsto> half_match], timers = [''chan1'']\<rparr>"

definition ready_state :: bot_state where
  "ready_state = \<lparr>matchData = [''chan1'' \<mapsto> ready_match], timers = [''chan1'']\<rparr>"

definition robo_state :: bot_state where
  "robo_state = \<lparr>matchData = [''chan1'' \<mapsto>
       \<lparr>playerA = None, playerB = None, ids = [''1001'', ''2002'']\<rparr>],
     timers = [''chan1'']\<rparr>"

text \<open>Bob starts a match against Carol in a text channel; the platform names the thread.\<close>

definition bob_starts :: interaction where
  "bob_starts = \<lparr>isChatInputCommand = True, command = StartMatch carol, requester = bob,
     channelId = ''lobby'', inGuild = True, channelType = GuildText\<rparr>"

section \<open>Basic facts\<close>

lemma at_simps:
  "at (x # xs) 0 = Some x" "at (x # y # xs) (Suc 0) = Some y" "at [] i = None"
  by (simp_all add: at_def)

lemma two_elements: "length xs = 2 \<Longrightarrow> \<exists>a b. xs = [a, b]"
  by (cases xs; cases "tl xs") auto

lemma two_ids_init: "two_ids init"
  by (simp add: two_ids_def init_def)

lemma two_ids_half_state: "two_ids half_state"
  by (simp add: two_ids_def half_state_def half_match_def)

subsection \<open>A key without a record stays without one until a create stores one\<close>

lemma step_keeps_absent:
  "matchData s t = None \<Longrightarrow> creates pe \<noteq> Some t \<Longrightarrow> matchData (st (step pe s)) t = None"
  by (auto simp: step_def creates_def interactionCreate_def startmatch_def submit_def reveal_def
        messageCreate_def expiry_def Let_def
      split: event.splits command.splits option.splits if_splits)

lemma run_keeps_absent:
  "matchData s t = None \<Longrightarrow> \<forall>pe\<in>set pes. creates pe \<noteq> Some t \<Longrightarrow>
   matchData (run pes s) t = None"
  by (induction pes arbitrary: s) (simp_all add: step_keeps_absent)

subsection \<open>The \<open>ids\<close> array of a record\<close>

lemma step_two_ids: "two_ids s \<Longrightarrow> two_ids (st (step pe s))"
  by (auto simp: two_ids_def step_def interactionCreate_def startmatch_def submit_def reveal_def
        messageCreate_def expiry_def Let_def fresh_match_def
      split: event.splits command.splits option.splits if_splits)

lemma run_two_ids: "two_ids s \<Longrightarrow> two_ids (run pes s)"
  by (induction pes arbitrary: s) (simp_all add: step_two_ids)

lemma step_ids_fixed:
  "matchData s c = Some d \<Longrightarrow> creates pe \<noteq> Some c \<Longrightarrow>
   matchData (st (step pe s)) c = Some d' \<Longrightarrow> ids d' = ids d"
  by (auto simp: step_def creates_def interactionCreate_def startmatch_def submit_def reveal_def
        messageCreate_def expiry_def Let_def
      split: event.splits command.splits option.splits if_splits)

lemma run_ids_fixed:
  "matchData s c = Some d \<Longrightarrow> \<forall>pe\<in>set pes. creates pe \<noteq> Some c \<Longrightarrow>
   matchData (run pes s) c = Some d' \<Longrightarrow> ids d' = ids d"
proof (induction pes arbitrary: s d)
  case Nil
  then show ?case by simp
next
  case (Cons pe pes)
  show ?case
  proof (cases "matchData (st (step pe s)) c")
    case None
    with Cons.prems(2) have "matchData (run pes (st (step pe s))) c = None"
      by (intro run_keeps_absent) simp_all
    with Cons.prems(3) show ?thesis by simp
  next
    case (Some d1)
    with Cons.prems have "ids d1 = ids d"
      by (intro step_ids_fixed [of s c d pe d1]) simp_all
    moreover have "ids d' = ids d1"
      using Cons.IH [OF Some] Cons.prems by simp
    ultimately show ?thesis by simp
  qed
qed

subsection \<open>The slot written by /submit\<close>

text \<open>
  Two writes by the same participant leave the second value in that participant's slot
  and the rest of the record as it was.
\<close>

lemma last_write_wins:
  assumes "matchData s c = Some d" and "u \<in> set (ids d)"
  shows "matchData (st (submit q c u v2 (st (submit p c u v1 s)))) c =
           Some (if Some u = at (ids d) 0 then d\<lparr>playerA := Some v2\<rparr>
                 else d\<lparr>playerB := Some v2\<rparr>)"
  using assms by (simp add: submit_def array_includes_def Let_def)

section \<open>The end-to-end scenario\<close>

text \<open>
  The scenario when the platform lets the calls of the creation and of the successful
  reveal through. For every channel key \<open>c\<close> and participants with distinct ids: after
  /startmatch has created the thread \<open>c\<close> and the first participant has submitted \<open>X\<close>
  with /submit, /reveal ends in the Incomplete branch and leaves the state, with the record
  of \<open>c\<close>, as it was; after the second participant has submitted \<open>Y\<close>, /reveal posts the
  embed with Player A = \<open>X\<close> and Player B = \<open>Y\<close>, acknowledges, and removes the record; a
  further /reveal ends in the NoSuchMatch branch. The key need not be fresh.
\<close>

lemma scenario_when_calls_go_through:
  assumes distinct: "uid starter \<noteq> uid opponent"
    and parent: "parent_type = GuildText \<or> parent_type = GuildAnnouncement"
    and deferred: "succeeds p0 DeferReply"
    and thread: "threads_create p0 (thread_name starter opponent) = Some c"
    and send: "succeeds p4 (ChannelSendEmbed c ''X'' ''Y'')"
    and ack: "succeeds p4 (Reply ''Choices revealed!'')"
  shows
    "(let s1 = st (startmatch p0 True parent_type starter opponent s);
          s2 = st (submit p1 c (uid starter) ''X'' s1);
          r3 = reveal p2 c s2;
          s4 = st (submit p3 c (uid opponent) ''Y'' (st r3));
          r5 = reveal p4 c s4;
          r6 = reveal p5 c (st r5)
      in outcome r3 = Incomplete \<and> st r3 = s2 \<and> matchData (st r3) c \<noteq> None \<and>
         outcome r5 = Revealed ''X'' ''Y'' \<and>
         trace r5 = [Did (ChannelSendEmbed c ''X'' ''Y''), Did (Reply ''Choices revealed!'')] \<and>
         matchData (st r5) c = None \<and>
         outcome r6 = NoSuchMatch \<and> st r6 = st r5)"
proof -
  define s1 where "s1 = st (startmatch p0 True parent_type starter opponent s)"
  have m1: "matchData s1 c = Some (fresh_match starter opponent)"
    using parent deferred thread by (auto simp: s1_def startmatch_def Let_def)
  define s2 where "s2 = st (submit p1 c (uid starter) ''X'' s1)"
  have m2: "matchData s2 c =
      Some \<lparr>playerA = Some ''X'', playerB = None, ids = [uid starter, uid opponent]\<rparr>"
    using m1 by (simp add: s2_def submit_def fresh_match_def array_includes_def at_simps)
  define r3 where "r3 = reveal p2 c s2"
  have o3: "outcome r3 = Incomplete" and s3: "st r3 = s2"
    using m2 by (simp_all add: r3_def reveal_def)
  define s4 where "s4 = st (submit p3 c (uid opponent) ''Y'' (st r3))"
  have m4: "matchData s4 c =
      Some \<lparr>playerA = Some ''X'', playerB = Some ''Y'', ids = [uid starter, uid opponent]\<rparr>"
    using m2 distinct by (auto simp: s4_def s3 submit_def array_includes_def at_simps)
  define r5 where "r5 = reveal p4 c s4"
  have o5: "outcome r5 = Revealed ''X'' ''Y''"
    and t5: "trace r5 = [Did (ChannelSendEmbed c ''X'' ''Y''), Did (Reply ''Choices revealed!'')]"
    and m5: "matchData (st r5) c = None"
    using m4 send ack by (simp_all add: r5_def reveal_def Let_def)
  define r6 where "r6 = reveal p5 c (st r5)"
  have o6: "outcome r6 = NoSuchMatch" and s6: "st r6 = st r5"
    using m5 by (simp_all add: r6_def reveal_def)
  show ?thesis
    unfolding Let_def
    using o3 s3 m2 o5 t5 m5 o6 s6
    by (simp add: s1_def s2_def r3_def s4_def r5_def r6_def)
qed

text \<open>The scenario for Alice and Bob in the thread \<open>chan1\<close>, from the empty table.\<close>

lemma scenario_alice_bob:
  "uid alice \<noteq> uid bob \<and>
   succeeds (everything_works ''chan1'') DeferReply \<and>
   threads_create (everything_works ''chan1'') (thread_name alice bob) = Some ''chan1'' \<and>
   succeeds (everything_works ''chan1'') (ChannelSendEmbed ''chan1'' ''X'' ''Y'') \<and>
   succeeds (everything_works ''chan1'') (Reply ''Choices revealed!'') \<and>
   (let s1 = st (startmatch (everything_works ''chan1'') True GuildText alice bob init);
        s2 = st (submit (everything_works ''chan1'') ''chan1'' (uid alice) ''X'' s1);
        r3 = reveal (everything_works ''chan1'') ''chan1'' s2;
        s4 = st (submit (everything_works ''chan1'') ''chan1'' (uid bob) ''Y'' (st r3));
        r5 = reveal (everything_works ''chan1'') ''chan1'' s4;
        r6 = reveal (everything_works ''chan1'') ''chan1'' (st r5)
    in outcome r3 = Incomplete \<and> st r3 = s2 \<and> matchData (st r3) ''chan1'' \<noteq> None \<and>
       outcome r5 = Revealed ''X'' ''Y'' \<and>
       trace r5 = [Did (ChannelSendEmbed ''chan1'' ''X'' ''Y''), Did (Reply ''Choices revealed!'')] \<and>
       matchData (st r5) ''chan1'' = None \<and>
       outcome r6 = NoSuchMatch \<and> st r6 = st r5)"
proof -
  have d: "uid alice \<noteq> uid bob"
    by (simp add: alice_def bob_def)
  have e: "succeeds (everything_works ''chan1'') DeferReply"
    "threads_create (everything_works ''chan1'') (thread_name alice bob) = Some ''chan1''"
    "succeeds (everything_works ''chan1'') (ChannelSendEmbed ''chan1'' ''X'' ''Y'')"
    "succeeds (everything_works ''chan1'') (Reply ''Choices revealed!'')"
    by (simp_all add: everything_works_def)
  have g: "GuildText = GuildText \<or> GuildText = GuildAnnouncement"
    by simp
  show ?thesis
    using d e
      scenario_when_calls_go_through [OF d g e(1) e(2) e(3) e(4),
        of init "everything_works ''chan1''" "everything_works ''chan1''"
           "everything_works ''chan1''" "everything_works ''chan1''"]
    by blast
qed

text \<open>
  Claim C1 says that the reveal after both submissions discloses the pair and removes the
  record, so that an immediately following reveal fails with NoSuchMatch. The source
  deletes the record (line 159) only after the awaited send (line 157) and the awaited
  reply (line 158). Alice and Bob play the scenario in \<open>chan1\<close>: the first reveal is
  Incomplete and keeps the record; at the second reveal the embed with \<open>X\<close> and \<open>Y\<close> is
  posted and the reply to the requester is refused; the handler ends in its
  \<^verbatim>\<open>catch\<close>, the record stays, and the next reveal posts the pair a second time.
\<close>

theorem reveal_again_after_failed_ack:
  "(let p = everything_works ''chan1'';
        s1 = st (startmatch p True GuildText alice bob init);
        s2 = st (submit p ''chan1'' (uid alice) ''X'' s1);
        r3 = reveal p ''chan1'' s2;
        s4 = st (submit p ''chan1'' (uid bob) ''Y'' (st r3));
        r5 = reveal ack_too_late ''chan1'' s4;
        r6 = reveal p ''chan1'' (st r5)
    in outcome r3 = Incomplete \<and> st r3 = s2 \<and>
       trace r5 = [Did (ChannelSendEmbed ''chan1'' ''X'' ''Y''),
                   Failed (Reply ''Choices revealed!''),
                   ConsoleError ''interaction error:'',
                   Failed (Reply ''Unexpected error handling this command.'')] \<and>
       outcome r5 = HandlerError \<and>
       st r5 = s4 \<and>
       matchData (st r5) ''chan1'' =
         Some \<lparr>playerA = Some ''X'', playerB = Some ''Y'', ids = [''1001'', ''1002'']\<rparr> \<and>
       outcome r6 = Revealed ''X'' ''Y'' \<and>
       trace r6 = [Did (ChannelSendEmbed ''chan1'' ''X'' ''Y''), Did (Reply ''Choices revealed!'')] \<and>
       matchData (st r6) ''chan1'' = None)"
  by (simp add: Let_def everything_works_def ack_too_late_def alice_def bob_def init_def
        startmatch_def submit_def reveal_def fresh_match_def array_includes_def at_simps
        on_error_def attempt_def)

text \<open>
  At the second reveal both slots are truthy, the send goes through and the reply does
  not; the reveal after it is not answered with NoSuchMatch.
\<close>

theorem reveal_again_after_failed_ack_witness:
  "truthy (Some ''X'') \<and> truthy (Some ''Y'') \<and>
   succeeds ack_too_late (ChannelSendEmbed ''chan1'' ''X'' ''Y'') \<and>
   \<not> succeeds ack_too_late (Reply ''Choices revealed!'') \<and>
   outcome (reveal (everything_works ''chan1'') ''chan1''
     (st (reveal ack_too_late ''chan1''
        (st (submit (everything_works ''chan1'') ''chan1'' (uid bob) ''Y''
           (st (reveal (everything_works ''chan1'') ''chan1''
              (st (submit (everything_works ''chan1'') ''chan1'' (uid alice) ''X''
                 (st (startmatch (everything_works ''chan1'') True GuildText alice bob
                    init))))))))))) = Revealed ''X'' ''Y''"
proof -
  have a: "truthy (Some ''X'')" "truthy (Some ''Y'')"
    "succeeds ack_too_late (ChannelSendEmbed ''chan1'' ''X'' ''Y'')"
    "\<not> succeeds ack_too_late (Reply ''Choices revealed!'')"
    by (simp_all add: ack_too_late_def)
  show ?thesis
    using a reveal_again_after_failed_ack unfolding Let_def by blast
qed

section \<open>Removal of the record and the external effects\<close>

text \<open>
  Claim C2 says that both terminal paths remove the record before any external effect, so
  that a failing effect never leaves the record present. On the reveal path the source
  sends the embed (line 157), replies (line 158) and only then deletes the record
  (line 159): when the send throws, the record of a complete match is still in the table.
\<close>

theorem reveal_failed_send_keeps_record:
  "trace (reveal nothing_works ''chan1'' ready_state) =
     [Failed (ChannelSendEmbed ''chan1'' ''X'' ''Y''), ConsoleError ''interaction error:'',
      Failed (Reply ''Unexpected error handling this command.'')] \<and>
   matchData (st (reveal nothing_works ''chan1'' ready_state)) ''chan1'' =
     Some \<lparr>playerA = Some ''X'', playerB = Some ''Y'', ids = [''1001'', ''1002'']\<rparr>"
  by (simp add: reveal_def ready_state_def ready_match_def nothing_works_def on_error_def
        attempt_def Let_def)

text \<open>
  Claim C2, amended. Expiry: the record is removed independently of the deletion of the
  thread; whatever the platform does with the deletion, the state after the callback is
  the state before it without the record of the key. Reveal: the record is not removed
  before the disclosure is sent; a reveal that has removed the record has sent the embed;
  when the send of the embed throws, nothing is disclosed and the state, with the record,
  is as it was; when the send and the reply both go through at a complete match, the
  record is removed.
\<close>

theorem expiry_independent_reveal_after_send:
  "st (expiry p t s) = s\<lparr>matchData := (matchData s)(t := None)\<rparr> \<and>
   matchData (st (expiry p t s)) t = None \<and>
   trace (expiry p t s) =
     (if succeeds p (ThreadDelete t) then [Did (ThreadDelete t)] else [Failed (ThreadDelete t)]) \<and>
   (matchData s c = Some d \<and> matchData (st (reveal q'' c s)) c = None \<longrightarrow>
      Did (ChannelSendEmbed c (the (playerA d)) (the (playerB d))) \<in> set (trace (reveal q'' c s))) \<and>
   (matchData s c = Some d \<and>
    \<not> succeeds q' (ChannelSendEmbed c (the (playerA d)) (the (playerB d))) \<longrightarrow>
      st (reveal q' c s) = s \<and> matchData (st (reveal q' c s)) c = Some d \<and>
      (\<forall>a b. Did (ChannelSendEmbed c a b) \<notin> set (trace (reveal q' c s)))) \<and>
   (matchData s c = Some d \<and> truthy (playerA d) \<and> truthy (playerB d) \<and>
    succeeds q (ChannelSendEmbed c (the (playerA d)) (the (playerB d))) \<and>
    succeeds q (Reply ''Choices revealed!'') \<longrightarrow>
      matchData (st (reveal q c s)) c = None \<and>
      trace (reveal q c s) =
        [Did (ChannelSendEmbed c (the (playerA d)) (the (playerB d))),
         Did (Reply ''Choices revealed!'')])"
  by (auto simp: expiry_def reveal_def attempt_def uncaught_def on_error_def Let_def)

text \<open>
  The amended statement at a complete match: the thread deletion fails and the record is
  removed all the same; a reveal whose calls go through removes the record, and has sent
  the embed; a reveal whose send throws leaves the state as it was.
\<close>

theorem expiry_independent_reveal_after_send_witness:
  "matchData ready_state ''chan1'' = Some ready_match \<and>
   truthy (playerA ready_match) \<and> truthy (playerB ready_match) \<and>
   succeeds (everything_works ''chan1'') (ChannelSendEmbed ''chan1'' ''X'' ''Y'') \<and>
   succeeds (everything_works ''chan1'') (Reply ''Choices revealed!'') \<and>
   \<not> succeeds nothing_works (ChannelSendEmbed ''chan1'' ''X'' ''Y'') \<and>
   \<not> succeeds nothing_works (ThreadDelete ''chan1'') \<and>
   matchData (st (expiry nothing_works ''chan1'' ready_state)) ''chan1'' = None \<and>
   trace (expiry nothing_works ''chan1'' ready_state) = [Failed (ThreadDelete ''chan1'')] \<and>
   matchData (st (reveal (everything_works ''chan1'') ''chan1'' ready_state)) ''chan1'' = None \<and>
   Did (ChannelSendEmbed ''chan1'' ''X'' ''Y'') \<in>
     set (trace (reveal (everything_works ''chan1'') ''chan1'' ready_state)) \<and>
   st (reveal nothing_works ''chan1'' ready_state) = ready_state \<and>
   matchData (st (reveal nothing_works ''chan1'' ready_state)) ''chan1'' = Some ready_match"
proof -
  have h: "matchData ready_state ''chan1'' = Some ready_match"
    "truthy (playerA ready_match)" "truthy (playerB ready_match)"
    "the (playerA ready_match) = ''X''" "the (playerB ready_match) = ''Y''"
    by (simp_all add: ready_state_def ready_match_def)
  have e: "succeeds (everything_works ''chan1'') (ChannelSendEmbed ''chan1'' ''X'' ''Y'')"
    "succeeds (everything_works ''chan1'') (Reply ''Choices revealed!'')"
    "\<not> succeeds nothing_works (ChannelSendEmbed ''chan1'' ''X'' ''Y'')"
    "\<not> succeeds nothing_works (ThreadDelete ''chan1'')"
    by (simp_all add: everything_works_def nothing_works_def)
  show ?thesis
    using h e
      expiry_independent_reveal_after_send [of nothing_works "''chan1''" ready_state
        "''chan1''" ready_match "everything_works ''chan1''" nothing_works
        "everything_works ''chan1''"]
    by simp
qed

section \<open>What a submission shows\<close>

text \<open>
  Claim C3. The outputs of an accepted (indeed of any) submission do not depend on the
  submitted value: for the same platform, state, key and submitter, /submit with \<open>v1\<close> and
  with \<open>v2\<close> attempts the same calls with the same results and ends in the same branch,
  and so does the message path; the resulting states have the same timers and the same
  table outside the record of the key. The calls of both paths carry no part of the value.
\<close>

theorem submit_outputs_independent_of_value:
  "trace (submit p c u v1 s) = trace (submit p c u v2 s) \<and>
   outcome (submit p c u v1 s) = outcome (submit p c u v2 s) \<and>
   trace (messageCreate p c author v1 s) = trace (messageCreate p c author v2 s) \<and>
   outcome (messageCreate p c author v1 s) = outcome (messageCreate p c author v2 s) \<and>
   timers (st (submit p c u v1 s)) = timers (st (submit p c u v2 s)) \<and>
   (matchData (st (submit p c u v1 s)))(c := None) =
     (matchData (st (submit p c u v2 s)))(c := None) \<and>
   timers (st (messageCreate p c author v1 s)) = timers (st (messageCreate p c author v2 s)) \<and>
   (matchData (st (messageCreate p c author v1 s)))(c := None) =
     (matchData (st (messageCreate p c author v2 s)))(c := None)"
  by (simp add: submit_def messageCreate_def Let_def split: option.splits)

section \<open>The empty string in a slot\<close>

text \<open>
  Claim C4 says that a submitted empty string is told apart from a slot never written, so
  that a reveal after both submissions does not fail with Incomplete. The source tests
  \<^verbatim>\<open>!data.playerA || !data.playerB\<close> (line 145), and the empty string is falsy: Alice's
  message with empty content is stored, deleted and announced as a submission, Bob
  submits \<open>Y\<close>, and /reveal answers that not all players have submitted, keeping the record.
\<close>

theorem empty_submission_reads_as_absent:
  "(let p = everything_works ''chan1'';
        s1 = st (startmatch p True GuildText alice bob init);
        r2 = messageCreate p ''chan1'' alice [] s1;
        r3 = submit p ''chan1'' (uid bob) ''Y'' (st r2);
        r4 = reveal p ''chan1'' (st r3)
    in outcome r2 = Recorded \<and>
       trace r2 = [Did (MsgDelete ''chan1'' ''1001''),
                   Did (ChannelSend ''chan1'' ''alice has submitted their choice (hidden).'')] \<and>
       outcome r3 = Recorded \<and>
       matchData (st r3) ''chan1'' =
         Some \<lparr>playerA = Some [], playerB = Some ''Y'', ids = [''1001'', ''1002'']\<rparr> \<and>
       outcome r4 = Incomplete \<and>
       trace r4 = [Did (Reply ''Not all players have submitted their choice yet.'')] \<and>
       st r4 = st r3)"
  by (simp add: Let_def everything_works_def alice_def bob_def init_def startmatch_def
        messageCreate_def submit_def reveal_def fresh_match_def array_includes_def at_simps
        scrub_def hidden_text_def uncaught_def)

text \<open>
  At this input the test of line 145 is decided by its first disjunct: the stored empty
  string is falsy, the other slot is truthy.
\<close>

theorem empty_submission_reads_as_absent_witness:
  "\<not> truthy (Some []) \<and> truthy (Some ''Y'') \<and>
   outcome (reveal (everything_works ''chan1'') ''chan1''
     (st (submit (everything_works ''chan1'') ''chan1'' (uid bob) ''Y''
        (st (messageCreate (everything_works ''chan1'') ''chan1'' alice []
           (st (startmatch (everything_works ''chan1'') True GuildText alice bob init)))))))
     = Incomplete"
  using empty_submission_reads_as_absent by (simp add: Let_def)

section \<open>The two ways to submit\<close>

text \<open>The message handler drops every message of a bot: no call, no change (line 176).\<close>

lemma bot_message_ignored:
  "bot author \<Longrightarrow>
   messageCreate p c author v s = \<lparr>st = s, trace = [], outcome = Ignored\<rparr>"
  by (simp add: messageCreate_def)

text \<open>
  Claim C5 says that /submit and the message path treat every triple of key, submitter
  and value alike. The message handler returns at once for an author that is a bot
  (line 176); /submit has no such test. For a bot that is a participant, /submit records
  the value and the message path does nothing.
\<close>

theorem bot_author_paths_differ:
  "outcome (submit (everything_works ''chan1'') ''chan1'' (uid robo) ''rock'' robo_state) = Recorded \<and>
   matchData (st (submit (everything_works ''chan1'') ''chan1'' (uid robo) ''rock'' robo_state))
       ''chan1'' =
     Some \<lparr>playerA = None, playerB = Some ''rock'', ids = [''1001'', ''2002'']\<rparr> \<and>
   outcome (messageCreate (everything_works ''chan1'') ''chan1'' robo ''rock'' robo_state) = Ignored \<and>
   st (messageCreate (everything_works ''chan1'') ''chan1'' robo ''rock'' robo_state) = robo_state"
  by (simp add: robo_def robo_state_def submit_def messageCreate_def array_includes_def at_simps)

text \<open>
  Claim C5, amended. For every key, value and author that is not a bot, in a state whose
  records have two ids each (every state the handlers can reach), the message path ends in
  the same branch as /submit (NoSuchMatch, NotAParticipant or Recorded) and leaves the same
  state; a message of a bot is ignored.
\<close>

theorem paths_agree_for_non_bot:
  assumes "\<not> bot author" and "two_ids s"
  shows "outcome (messageCreate p c author v s) = outcome (submit q c (uid author) v s) \<and>
         st (messageCreate p c author v s) = st (submit q c (uid author) v s)"
proof (cases "matchData s c")
  case None
  then show ?thesis
    using assms(1) by (simp add: messageCreate_def submit_def)
next
  case (Some d)
  with assms(2) have "length (ids d) = 2"
    by (simp add: two_ids_def)
  then obtain a b where "ids d = [a, b]"
    using two_elements by blast
  then show ?thesis
    using assms(1) Some
    by (auto simp: messageCreate_def submit_def array_includes_def at_def Let_def)
qed

text \<open>Alice's message and Alice's /submit in the match of Alice and Bob.\<close>

theorem paths_agree_for_non_bot_witness:
  "\<not> bot alice \<and> two_ids half_state \<and>
   outcome (messageCreate nothing_works ''chan1'' alice ''rock'' half_state) =
     outcome (submit (everything_works ''chan1'') ''chan1'' (uid alice) ''rock'' half_state) \<and>
   st (messageCreate nothing_works ''chan1'' alice ''rock'' half_state) =
     st (submit (everything_works ''chan1'') ''chan1'' (uid alice) ''rock'' half_state)"
proof -
  have a: "\<not> bot alice"
    by (simp add: alice_def)
  show ?thesis
    using a two_ids_half_state paths_agree_for_non_bot [OF a two_ids_half_state]
    by blast
qed

section \<open>Expiry\<close>

text \<open>
  Claim C6. When the expiry callback of a key has run, the record of the key is gone,
  whatever its slots held and whether or not the thread deletion went through; a /submit
  on the key then ends in the NoSuchMatch branch and changes nothing, and a message in
  the thread is dropped at the missing record (or earlier, when its author is a bot);
  this stays so after any further events that do not create a thread with that id. The
  same holds when the callback runs as the timeout event of a pending timer.
\<close>

theorem expiry_then_no_such_match:
  "matchData (st (expiry p t s)) t = None \<and>
   (t \<in> set (timers s) \<longrightarrow> matchData (st (step (p, Timeout t) s)) t = None) \<and>
   outcome (submit q t u v (st (expiry p t s))) = NoSuchMatch \<and>
   st (submit q t u v (st (expiry p t s))) = st (expiry p t s) \<and>
   outcome (messageCreate q t author v (st (expiry p t s))) =
     (if bot author then Ignored else NoSuchMatch) \<and>
   st (messageCreate q t author v (st (expiry p t s))) = st (expiry p t s) \<and>
   ((\<forall>pe\<in>set pes. creates pe \<noteq> Some t) \<longrightarrow>
      outcome (submit q t u v (run pes (st (expiry p t s)))) = NoSuchMatch \<and>
      outcome (messageCreate q t author v (run pes (st (expiry p t s)))) =
        (if bot author then Ignored else NoSuchMatch))"
proof -
  have gone: "matchData (st (expiry p t s)) t = None"
    by (simp add: expiry_def)
  have fired: "matchData (st (step (p, Timeout t) s)) t = None" if "t \<in> set (timers s)"
    using that by (simp add: step_def expiry_def)
  have later: "matchData (run pes (st (expiry p t s))) t = None"
    if "\<forall>pe\<in>set pes. creates pe \<noteq> Some t"
    using gone that by (rule run_keeps_absent)
  have sub: "outcome (submit q t u v s') = NoSuchMatch \<and> st (submit q t u v s') = s'"
    if "matchData s' t = None" for s'
    using that by (simp add: submit_def)
  have msg: "outcome (messageCreate q t author v s') =
        (if bot author then Ignored else NoSuchMatch) \<and>
      st (messageCreate q t author v s') = s'"
    if "matchData s' t = None" for s'
    using that by (simp add: messageCreate_def)
  show ?thesis
    using gone fired sub [OF gone] msg [OF gone] sub [OF later] msg [OF later] by simp
qed

text \<open>
  The match of \<open>chan1\<close> with one slot written expires; Bob then starts another match, in
  the thread \<open>chan2\<close>; Alice's /submit in \<open>chan1\<close> finds no match.
\<close>

theorem expiry_then_no_such_match_witness:
  "''chan1'' \<in> set (timers half_state) \<and>
   creates (everything_works ''chan2'', Interaction bob_starts) = Some ''chan2'' \<and>
   matchData (st (step (nothing_works, Timeout ''chan1'') half_state)) ''chan1'' = None \<and>
   outcome (submit nothing_works ''chan1'' (uid alice) ''Z''
     (run [(everything_works ''chan2'', Interaction bob_starts)]
        (st (expiry nothing_works ''chan1'' half_state)))) = NoSuchMatch"
proof -
  have t: "''chan1'' \<in> set (timers half_state)"
    by (simp add: half_state_def)
  have c2: "creates (everything_works ''chan2'', Interaction bob_starts) = Some ''chan2''"
    by (simp add: creates_def bob_starts_def everything_works_def)
  then have c: "\<forall>pe\<in>set [(everything_works ''chan2'', Interaction bob_starts)].
      creates pe \<noteq> Some ''chan1''"
    by simp
  show ?thesis
    using t c c2
      expiry_then_no_such_match [of nothing_works "''chan1''" half_state nothing_works
        "uid alice" "''Z''" alice "[(everything_works ''chan2'', Interaction bob_starts)]"]
    by blast
qed

section \<open>The participants of a record\<close>

text \<open>
  Claim C7 says that every record has two distinct participant ids. /startmatch stores
  \<^verbatim>\<open>ids: [starter.id, opponent.id]\<close> (line 107) and never compares the two: a user who
  names themselves as the opponent gets a record whose two ids are equal.
\<close>

theorem self_match_ids_not_distinct:
  "outcome (startmatch (everything_works ''chan1'') True GuildText alice alice init) =
     Created ''chan1'' \<and>
   map_option ids
     (matchData (st (startmatch (everything_works ''chan1'') True GuildText alice alice init))
        ''chan1'') = Some [''1001'', ''1001''] \<and>
   \<not> distinct [''1001'', ''1001'']"
  by (simp add: startmatch_def everything_works_def alice_def init_def Let_def fresh_match_def)

text \<open>
  Claim C7, amended. Every record in the table, after any run of events from the empty
  table, has an \<open>ids\<close> array of exactly two ids; a create stores the starter's id and
  the opponent's id, in this order, equal or not; and through any run of events that does
  not create a thread with the key again, a record that is still there has the \<open>ids\<close>
  it had.
\<close>

theorem participants_two_and_fixed:
  "two_ids (run pes init) \<and>
   (in_guild \<and> succeeds p DeferReply \<and>
    (parent_type = GuildText \<or> parent_type = GuildAnnouncement) \<and>
    threads_create p (thread_name starter opponent) = Some t \<longrightarrow>
      map_option ids (matchData (st (startmatch p in_guild parent_type starter opponent s0)) t) =
        Some [uid starter, uid opponent]) \<and>
   (matchData s c = Some d \<and> (\<forall>pe\<in>set qes. creates pe \<noteq> Some c) \<and>
    matchData (run qes s) c = Some d' \<longrightarrow> ids d' = ids d)"
proof -
  have reach: "two_ids (run pes init)"
    using two_ids_init by (rule run_two_ids)
  have made: "map_option ids
        (matchData (st (startmatch p in_guild parent_type starter opponent s0)) t) =
      Some [uid starter, uid opponent]"
    if "in_guild" "succeeds p DeferReply"
      "parent_type = GuildText \<or> parent_type = GuildAnnouncement"
      "threads_create p (thread_name starter opponent) = Some t"
    using that by (auto simp: startmatch_def Let_def fresh_match_def)
  show ?thesis
    using reach made run_ids_fixed by blast
qed

text \<open>
  Bob starts a match against Carol; and in the match of Alice and Bob, Bob's message
  fills the second slot and leaves the \<open>ids\<close> alone.
\<close>

theorem participants_two_and_fixed_witness:
  "succeeds (everything_works ''chan2'') DeferReply \<and>
   threads_create (everything_works ''chan2'') (thread_name bob carol) = Some ''chan2'' \<and>
   matchData half_state ''chan1'' = Some half_match \<and>
   creates (nothing_works, Message ''chan1'' bob ''Y'') = None \<and>
   matchData (run [(nothing_works, Message ''chan1'' bob ''Y'')] half_state) ''chan1'' =
     Some (half_match\<lparr>playerB := Some ''Y''\<rparr>) \<and>
   two_ids (run [(everything_works ''chan2'', Interaction bob_starts)] init) \<and>
   map_option ids
     (matchData (st (startmatch (everything_works ''chan2'') True GuildText bob carol init))
        ''chan2'') = Some [uid bob, uid carol] \<and>
   ids (half_match\<lparr>playerB := Some ''Y''\<rparr>) = ids half_match"
proof -
  have e: "succeeds (everything_works ''chan2'') DeferReply"
    "threads_create (everything_works ''chan2'') (thread_name bob carol) = Some ''chan2''"
    by (simp_all add: everything_works_def)
  have h: "matchData half_state ''chan1'' = Some half_match"
    by (simp add: half_state_def)
  have c0: "creates (nothing_works, Message ''chan1'' bob ''Y'') = None"
    by (simp add: creates_def)
  then have c: "\<forall>pe\<in>set [(nothing_works, Message ''chan1'' bob ''Y'')]. creates pe \<noteq> Some ''chan1''"
    by simp
  have r: "matchData (run [(nothing_works, Message ''chan1'' bob ''Y'')] half_state) ''chan1'' =
      Some (half_match\<lparr>playerB := Some ''Y''\<rparr>)"
    by (simp add: step_def messageCreate_def half_state_def half_match_def bob_def
          array_includes_def at_def)
  show ?thesis
    using e h c c0 r
      participants_two_and_fixed [of "[(everything_works ''chan2'', Interaction bob_starts)]"
        True "everything_works ''chan2''" GuildText bob carol "''chan2''" init
        half_state "''chan1''" half_match "[(nothing_works, Message ''chan1'' bob ''Y'')]"
        "half_match\<lparr>playerB := Some ''Y''\<rparr>"]
    by blast
qed

section \<open>Overwriting a submission\<close>

text \<open>
  When the last values of both slots are non-empty and the platform lets the reveal
  through, the reveal after an overwrite shows the second value of the first participant.
\<close>

lemma overwrite_then_reveal:
  assumes "matchData s c = Some d" and "ids d = [a, b]" and "a \<noteq> b"
    and "v2 \<noteq> []" and "w \<noteq> []"
    and "succeeds p (ChannelSendEmbed c v2 w)" and "succeeds p (Reply ''Choices revealed!'')"
  shows "outcome (reveal p c (st (submit q3 c b w (st (submit q2 c a v2 (st (submit q1 c a v1 s)))))))
           = Revealed v2 w"
  using assms by (simp add: reveal_def submit_def array_includes_def at_def Let_def)

text \<open>
  Claim C8 says that after a participant submits \<open>v1\<close> and then \<open>v2\<close>, the slot holds
  \<open>v2\<close>, the other slot is untouched, and the reveal after the other participant's
  submission discloses \<open>v2\<close>. The writes are as claimed (\<open>last_write_wins\<close>), and so
  is the reveal for non-empty values (\<open>overwrite_then_reveal\<close>). When \<open>v2\<close> is the
  empty string the reveal discloses nothing: Alice submits \<open>rock\<close>, then posts a message
  with empty content, Bob submits \<open>paper\<close>, and /reveal answers that not all players have
  submitted, by the falsy test of line 145.
\<close>

theorem overwrite_with_empty_blocks_reveal:
  "(let p = everything_works ''chan1'';
        s1 = st (startmatch p True GuildText alice bob init);
        s2 = st (submit p ''chan1'' (uid alice) ''rock'' s1);
        s3 = st (messageCreate p ''chan1'' alice [] s2);
        s4 = st (submit p ''chan1'' (uid bob) ''paper'' s3);
        r5 = reveal p ''chan1'' s4
    in matchData s4 ''chan1'' =
         Some \<lparr>playerA = Some [], playerB = Some ''paper'', ids = [''1001'', ''1002'']\<rparr> \<and>
       outcome r5 = Incomplete \<and>
       trace r5 = [Did (Reply ''Not all players have submitted their choice yet.'')])"
  by (simp add: Let_def everything_works_def alice_def bob_def init_def startmatch_def
        messageCreate_def submit_def reveal_def fresh_match_def array_includes_def at_simps
        uncaught_def)

text \<open>
  Here too the first disjunct of the test decides: Alice's slot holds the empty string,
  Bob's slot a non-empty one.
\<close>

theorem overwrite_with_empty_blocks_reveal_witness:
  "\<not> truthy (Some []) \<and> truthy (Some ''paper'') \<and>
   outcome (reveal (everything_works ''chan1'') ''chan1''
     (st (submit (everything_works ''chan1'') ''chan1'' (uid bob) ''paper''
        (st (messageCreate (everything_works ''chan1'') ''chan1'' alice []
           (st (submit (everything_works ''chan1'') ''chan1'' (uid alice) ''rock''
              (st (startmatch (everything_works ''chan1'') True GuildText alice bob init)))))))))
     = Incomplete"
  using overwrite_with_empty_blocks_reveal by (simp add: Let_def)

section \<open>A submitter outside the match\<close>

text \<open>
  Claim C9. For every record and every submitter id that is not in its \<open>ids\<close>, /submit
  ends in the NotAParticipant branch and leaves the whole state unchanged; a message of
  such an author changes nothing and produces no output either, ending in the same branch
  unless the author is a bot, whose message is dropped before the test.
\<close>

theorem outsider_submit_rejected:
  assumes "matchData s c = Some d" and "u \<notin> set (ids d)"
  shows "outcome (submit p c u v s) = NotAParticipant \<and> st (submit p c u v s) = s \<and>
         trace (submit p c u v s) =
           (if succeeds p (Reply ''Only the two match players can submit here.'')
            then [Did (Reply ''Only the two match players can submit here.'')]
            else [Failed (Reply ''Only the two match players can submit here.''), Unhandled]) \<and>
         (uid author = u \<longrightarrow>
            outcome (messageCreate p c author v s) =
              (if bot author then Ignored else NotAParticipant) \<and>
            st (messageCreate p c author v s) = s \<and>
            trace (messageCreate p c author v s) = [])"
  using assms by (simp add: submit_def messageCreate_def array_includes_def uncaught_def)

text \<open>Carol submits in the match of Alice and Bob.\<close>

theorem outsider_submit_rejected_witness:
  "matchData half_state ''chan1'' = Some half_match \<and> uid carol \<notin> set (ids half_match) \<and>
   outcome (submit (everything_works ''chan1'') ''chan1'' (uid carol) ''Z'' half_state) =
     NotAParticipant \<and>
   st (submit (everything_works ''chan1'') ''chan1'' (uid carol) ''Z'' half_state) = half_state \<and>
   outcome (messageCreate (everything_works ''chan1'') ''chan1'' carol ''Z'' half_state) =
     NotAParticipant \<and>
   st (messageCreate (everything_works ''chan1'') ''chan1'' carol ''Z'' half_state) = half_state"
proof -
  have h: "matchData half_state ''chan1'' = Some half_match"
    by (simp add: half_state_def)
  have o: "uid carol \<notin> set (ids half_match)"
    by (simp add: carol_def half_match_def)
  have b: "\<not> bot carol"
    by (simp add: carol_def)
  show ?thesis
    using h o b
      outsider_submit_rejected [OF h o, of "everything_works ''chan1''" "''Z''" carol]
    by simp
qed

section \<open>Creating a match under a key that has a record\<close>

text \<open>
  Claim C10 says that a create under a key already in the table fails with AlreadyExists
  and leaves the record alone. The source stores the new record with
  \<^verbatim>\<open>matchData.set(thread.id, ...)\<close> (line 107) and never looks the key up: when the
  platform hands out the id \<open>chan1\<close> again, the record of Alice and Bob with its
  submitted value is replaced by an empty record of Bob and Alice, and the command
  completes as a creation.
\<close>

theorem create_on_present_key_overwrites:
  "matchData half_state ''chan1'' =
     Some \<lparr>playerA = Some ''X'', playerB = None, ids = [''1001'', ''1002'']\<rparr> \<and>
   outcome (startmatch (everything_works ''chan1'') True GuildText bob alice half_state) =
     Created ''chan1'' \<and>
   matchData (st (startmatch (everything_works ''chan1'') True GuildText bob alice half_state))
       ''chan1'' =
     Some \<lparr>playerA = None, playerB = None, ids = [''1002'', ''1001'']\<rparr>"
  by (simp add: half_state_def half_match_def startmatch_def everything_works_def Let_def
        fresh_match_def alice_def bob_def)

text \<open>
  Claim C10, amended. Once the thread is created (the command was issued in a guild text
  or announcement channel, the deferral and the thread creation went through), the record
  with both slots absent and the ids of starter and opponent is stored under the thread's
  id, whether or not the key had a record, and the rest of the table is unchanged; the
  command then completes as a creation or, when a later call throws, in the error handler.
\<close>

theorem create_stores_fresh_record:
  assumes "in_guild" and "succeeds p DeferReply"
    and "parent_type = GuildText \<or> parent_type = GuildAnnouncement"
    and "threads_create p (thread_name starter opponent) = Some t"
  shows "matchData (st (startmatch p in_guild parent_type starter opponent s)) =
           (matchData s)(t \<mapsto>
              \<lparr>playerA = None, playerB = None, ids = [uid starter, uid opponent]\<rparr>) \<and>
         (outcome (startmatch p in_guild parent_type starter opponent s) = Created t \<or>
          outcome (startmatch p in_guild parent_type starter opponent s) = HandlerError)"
  using assms by (auto simp: startmatch_def Let_def fresh_match_def)

text \<open>Bob starts a match against Alice and the thread id is one the table already has.\<close>

theorem create_stores_fresh_record_witness:
  "succeeds (everything_works ''chan1'') DeferReply \<and>
   threads_create (everything_works ''chan1'') (thread_name bob alice) = Some ''chan1'' \<and>
   matchData half_state ''chan1'' \<noteq> None \<and>
   matchData (st (startmatch (everything_works ''chan1'') True GuildText bob alice half_state)) =
     (matchData half_state)(''chan1'' \<mapsto>
        \<lparr>playerA = None, playerB = None, ids = [uid bob, uid alice]\<rparr>)"
proof -
  have e: "succeeds (everything_works ''chan1'') DeferReply"
    "threads_create (everything_works ''chan1'') (thread_name bob alice) = Some ''chan1''"
    by (simp_all add: everything_works_def)
  have g: "GuildText = GuildText \<or> GuildText = GuildAnnouncement"
    by simp
  have h: "matchData half_state ''chan1'' \<noteq> None"
    by (simp add: half_state_def)
  show ?thesis
    using e h create_stores_fresh_record [OF TrueI e(1) g e(2), of half_state]
    by blast
qed

end
